theory Spec2Isabelle
  imports Main "HOL-Library.Word"
begin

section \<open>ZHeap: the orchestrator of the Z collector (gc/z/zHeap.cpp)\<close>

text \<open>
  The embedding follows \<^verbatim>\<open>src/hotspot/share/gc/z/zHeap.cpp\<close>. A member function of
  \<^verbatim>\<open>ZHeap\<close> becomes a function on the collector state that yields an outcome: either
  the function returned (with its value and the state it left) or the VM halted in a
  fatal check (with the message and the state at the halt). Every call that ZHeap makes
  on a collaborator (page allocator, page table, selector, forwarding table, Mark,
  reference processor, statistics, output stream) is appended to a trace, so that the
  order of the calls of the source can be stated and proved.
\<close>

subsection \<open>Data\<close>

text \<open>
  The values of \<^verbatim>\<open>ZGlobalPhase\<close> that zHeap.cpp reads and writes
  (declared in gc/z/zGlobals.hpp).
\<close>

datatype ZPhase = ZPhaseMark | ZPhaseMarkCompleted | ZPhaseRelocate

text \<open>
  \<^verbatim>\<open>GCCause::Cause\<close> (declared in gc/shared/gcCause.hpp): the nine enumerators that
  \<^verbatim>\<open>should_unload_class\<close> names, and \<open>GCCause_other n\<close> for every other enumerator.
\<close>

datatype GCCause =
    GCCause_wb_young_gc
  | GCCause_wb_conc_mark
  | GCCause_wb_full_gc
  | GCCause_dcmd_gc_run
  | GCCause_java_lang_system_gc
  | GCCause_full_gc_alot
  | GCCause_scavenge_alot
  | GCCause_jvmti_force_gc
  | GCCause_metadata_GC_clear_soft_refs
  | GCCause_other nat

text \<open>
  Modelled from the spec: \<^verbatim>\<open>ZPage\<close> (gc/z/zPage.hpp is not among the sources). A page has
  an address range, a liveness marking state and the flags "allocating" and
  "relocatable"; the three queries of zHeap.cpp are fields.
\<close>

record ZPage =
  page_start :: nat
  page_size :: nat
  is_relocatable :: bool
  is_marked :: bool
  is_allocating :: bool

text \<open>
  Modelled from the spec: \<^verbatim>\<open>ZForwarding\<close>, the record of one page of the relocation
  set ("one Forwarding record per Page in the RelocationSet").
\<close>

datatype ZForwarding = Forwarding (forwarding_page: ZPage)

text \<open>The statistics samplers that zHeap.cpp declares (lines 51 to 54).\<close>

datatype ZStatSampler =
    ZSamplerHeapUsedBeforeMark
  | ZSamplerHeapUsedAfterMark
  | ZSamplerHeapUsedBeforeRelocation
  | ZSamplerHeapUsedAfterRelocation

text \<open>The calls on collaborators, in the words of the source.\<close>

datatype Event =
    PageAllocator_alloc_page "ZPage option"
  | PageAllocator_free_page ZPage bool
  | PageAllocator_enable_deferred_delete
  | PageAllocator_disable_deferred_delete
  | PageTable_insert ZPage
  | PageTable_remove ZPage
  | Selector_register_live_page ZPage
  | Selector_register_garbage_page ZPage
  | Selector_select
  | ForwardingTable_insert ZForwarding
  | ForwardingTable_remove ZForwarding
  | RelocationSet_reset
  | Mark_end bool
  | MetaspaceGC_compute_new_size
  | ZStatSample ZStatSampler
  | ZStatInc_UndoPageAllocation
  | ZStatHeap_set_at_mark_end
  | ZStatHeap_set_at_select_relocation_set
  | ZStatHeap_set_at_relocate_end
  | ZStatRelocation_set_at_select_relocation_set
  | ZStatRelocation_set_at_relocate_end bool
  | ZResurrection_block
  | ZResurrection_unblock
  | WeakRootsProcessor_process_weak_roots
  | WeakRootsProcessor_process_concurrent_weak_roots
  | ReferenceProcessor_process_references
  | ReferenceProcessor_enqueue_references
  | Unload_prepare
  | Unload_unload
  | Relocate_relocate bool
  | Stream_print_heap_usage
  | Stream_cr
  | MetaspaceUtils_print_on
  | Page_print_on ZPage
  | Workers_run_parallel_ZVerifyRootsTask
  | HeapIterator_objects_do bool

text \<open>
  The collector state that zHeap.cpp reads and writes: the globals
  (\<^verbatim>\<open>ZGlobalPhase\<close>, \<^verbatim>\<open>ZGlobalSeqNum\<close>, the flags \<^verbatim>\<open>ClassUnloading\<close> and
  \<^verbatim>\<open>ZUnloadClassesFrequency\<close>, the cause of the running collection, whether the VM is at
  a safepoint, whether \<^verbatim>\<open>assert\<close> is compiled in), the members of ZHeap that the claims
  are about, and the trace of collaborator calls.

  \<^verbatim>\<open>ZGlobalSeqNum\<close> is a \<^verbatim>\<open>uint32_t\<close>. The declaration of \<^verbatim>\<open>ZUnloadClassesFrequency\<close> is not
  among the sources; it is an unsigned flag, kept as a natural number.

  Modelled from the spec: the page table is the sequence of pages its iterator yields,
  the forwarding table the collection of forwardings inserted and not yet removed, the
  relocation set the sequence of its forwardings; deferred delete is a mode of the page
  allocator and blocked resurrection a mode of \<^verbatim>\<open>ZResurrection\<close>.
\<close>

record ZHeap =
  ZGlobalPhase :: ZPhase
  ZGlobalSeqNum :: "32 word"
  ClassUnloading :: bool
  ZUnloadClassesFrequency :: nat
  gc_cause :: GCCause
  at_safepoint :: bool
  debug_build :: bool
  page_table :: "ZPage list"
  forwarding_table :: "ZForwarding list"
  relocation_set :: "ZForwarding list"
  deferred_delete :: bool
  resurrection_blocked :: bool
  trace :: "Event list"

datatype 'a outcome =
    is_Fatal: Fatal (fatal_message: string) (halt_state: ZHeap)
  | is_Return: Return (result: 'a) (state: ZHeap)

definition then_do :: "'a outcome \<Rightarrow> ('a \<Rightarrow> ZHeap \<Rightarrow> 'b outcome) \<Rightarrow> 'b outcome" where
  "then_do m f = (case m of Fatal msg s \<Rightarrow> Fatal msg s | Return x s \<Rightarrow> f x s)"

definition emit :: "Event \<Rightarrow> ZHeap \<Rightarrow> ZHeap" where
  "emit e s = s\<lparr>trace := trace s @ [e]\<rparr>"

text \<open>The calls that one run of an operation added to the trace.\<close>

definition events_of :: "ZHeap \<Rightarrow> ZHeap \<Rightarrow> Event list" where
  "events_of s s' = drop (length (trace s)) (trace s')"

text \<open>\<open>a\<close> is called before the first call of \<open>b\<close>.\<close>

definition happens_before :: "Event \<Rightarrow> Event \<Rightarrow> Event list \<Rightarrow> bool" where
  "happens_before a b es = (a \<in> set (takeWhile (\<lambda>e. e \<noteq> b) es))"

text \<open>
  \<^verbatim>\<open>assert\<close> (utilities/debug.hpp) is compiled into debug builds only;
  \<^verbatim>\<open>guarantee\<close> is checked in every build. Both halt the VM when the condition fails.
\<close>

definition assert :: "bool \<Rightarrow> string \<Rightarrow> ZHeap \<Rightarrow> unit outcome" where
  "assert p msg s = (if debug_build s \<and> \<not> p then Fatal msg s else Return () s)"

definition guarantee :: "bool \<Rightarrow> string \<Rightarrow> ZHeap \<Rightarrow> unit outcome" where
  "guarantee p msg s = (if \<not> p then Fatal msg s else Return () s)"

subsection \<open>Collaborators\<close>

text \<open>
  Modelled from the spec: \<^verbatim>\<open>ZPageTable::insert\<close> and \<^verbatim>\<open>ZPageTable::remove\<close>
  (gc/z/zPageTable.cpp is not among the sources): a page is found in the table from its
  insertion to its removal.
\<close>

definition page_table_insert :: "ZPage \<Rightarrow> ZHeap \<Rightarrow> ZHeap" where
  "page_table_insert page s = emit (PageTable_insert page) (s\<lparr>page_table := page_table s @ [page]\<rparr>)"

definition page_table_remove :: "ZPage \<Rightarrow> ZHeap \<Rightarrow> ZHeap" where
  "page_table_remove page s = emit (PageTable_remove page) (s\<lparr>page_table := removeAll page (page_table s)\<rparr>)"

text \<open>
  Modelled from the spec: \<^verbatim>\<open>ZPageAllocator::enable_deferred_delete\<close> and
  \<^verbatim>\<open>disable_deferred_delete\<close> (gc/z/zPageAllocator.cpp is not among the sources): "a
  scoped mode in which freed Pages are queued rather than immediately returned to the OS".
\<close>

definition enable_deferred_delete :: "ZHeap \<Rightarrow> ZHeap" where
  "enable_deferred_delete s = emit PageAllocator_enable_deferred_delete (s\<lparr>deferred_delete := True\<rparr>)"

definition disable_deferred_delete :: "ZHeap \<Rightarrow> ZHeap" where
  "disable_deferred_delete s = emit PageAllocator_disable_deferred_delete (s\<lparr>deferred_delete := False\<rparr>)"

text \<open>
  Modelled from the spec: \<^verbatim>\<open>ZResurrection::block\<close> and \<^verbatim>\<open>ZResurrection::unblock\<close>
  (gc/z/zResurrection.cpp is not among the sources).
\<close>

definition resurrection_block :: "ZHeap \<Rightarrow> ZHeap" where
  "resurrection_block s = emit ZResurrection_block (s\<lparr>resurrection_blocked := True\<rparr>)"

definition resurrection_unblock :: "ZHeap \<Rightarrow> ZHeap" where
  "resurrection_unblock s = emit ZResurrection_unblock (s\<lparr>resurrection_blocked := False\<rparr>)"

text \<open>
  Modelled from the spec: \<^verbatim>\<open>ZForwardingTable::insert\<close> and \<^verbatim>\<open>ZForwardingTable::remove\<close>
  (gc/z/zForwardingTable.cpp is not among the sources).
\<close>

definition forwarding_table_insert :: "ZForwarding \<Rightarrow> ZHeap \<Rightarrow> ZHeap" where
  "forwarding_table_insert forwarding s =
     emit (ForwardingTable_insert forwarding) (s\<lparr>forwarding_table := forwarding_table s @ [forwarding]\<rparr>)"

definition forwarding_table_remove :: "ZForwarding \<Rightarrow> ZHeap \<Rightarrow> ZHeap" where
  "forwarding_table_remove forwarding s =
     emit (ForwardingTable_remove forwarding)
       (s\<lparr>forwarding_table := removeAll forwarding (forwarding_table s)\<rparr>)"

text \<open>Modelled from the spec: \<^verbatim>\<open>ZRelocationSet::reset\<close> empties the relocation set.\<close>

definition relocation_set_reset :: "ZHeap \<Rightarrow> ZHeap" where
  "relocation_set_reset s = emit RelocationSet_reset (s\<lparr>relocation_set := []\<rparr>)"

text \<open>
  Modelled from the spec: \<^verbatim>\<open>ZRelocationSetSelector\<close> (gc/z/zRelocationSetSelector.cpp is
  not among the sources). The selector keeps the pages registered live and the pages
  registered garbage. \<^verbatim>\<open>select\<close> chooses "a subset of live pages (not the
  already-reclaimed garbage ones)" by a tunable heuristic, here the parameter \<open>policy\<close>
  (given all live pages, is this one worth relocating), and populates the relocation set
  with one forwarding per chosen page.
\<close>

record ZRelocationSetSelector =
  registered_live :: "ZPage list"
  registered_garbage :: "ZPage list"

definition new_selector :: ZRelocationSetSelector where
  "new_selector = \<lparr>registered_live = [], registered_garbage = []\<rparr>"

definition register_live_page :: "ZPage \<Rightarrow> ZRelocationSetSelector \<Rightarrow> ZRelocationSetSelector" where
  "register_live_page page selector = selector\<lparr>registered_live := registered_live selector @ [page]\<rparr>"

definition register_garbage_page :: "ZPage \<Rightarrow> ZRelocationSetSelector \<Rightarrow> ZRelocationSetSelector" where
  "register_garbage_page page selector =
     selector\<lparr>registered_garbage := registered_garbage selector @ [page]\<rparr>"

definition selector_select ::
  "(ZPage list \<Rightarrow> ZPage \<Rightarrow> bool) \<Rightarrow> ZRelocationSetSelector \<Rightarrow> ZHeap \<Rightarrow> ZHeap" where
  "selector_select policy selector s =
     emit Selector_select
       (s\<lparr>relocation_set :=
            map Forwarding (filter (policy (registered_live selector)) (registered_live selector))\<rparr>)"

subsection \<open>Page allocation (zHeap.cpp, lines 216 to 242)\<close>

text \<open>
  \<open>allocated\<close> is what \<^verbatim>\<open>_page_allocator.alloc_page(type, size, flags)\<close> hands out:
  \<open>None\<close> for \<^verbatim>\<open>NULL\<close>.
\<close>

definition alloc_page :: "ZPage option \<Rightarrow> ZHeap \<Rightarrow> ZPage option outcome" where
  "alloc_page allocated s =
     (let s1 = emit (PageAllocator_alloc_page allocated) s in
      case allocated of
        Some page \<Rightarrow> Return (Some page) (page_table_insert page s1)
      | None \<Rightarrow> Return None s1)"

definition free_page :: "ZPage \<Rightarrow> bool \<Rightarrow> ZHeap \<Rightarrow> unit outcome" where
  "free_page page reclaimed s =
     (let s1 = page_table_remove page s;
          s2 = emit (PageAllocator_free_page page reclaimed) s1
      in Return () s2)"

definition undo_alloc_page :: "ZPage \<Rightarrow> ZHeap \<Rightarrow> unit outcome" where
  "undo_alloc_page page s =
     then_do (assert (is_allocating page) ''Invalid page state'' s) (\<lambda>_ s1.
       free_page page False (emit ZStatInc_UndoPageAllocation s1))"

subsection \<open>End of marking (lines 290 to 319)\<close>

text \<open>\<open>mark_ended\<close> is what \<^verbatim>\<open>_mark.end()\<close> returns.\<close>

definition mark_end :: "bool \<Rightarrow> ZHeap \<Rightarrow> bool outcome" where
  "mark_end mark_ended s =
     then_do (assert (at_safepoint s) ''Should be at safepoint'' s) (\<lambda>_ s0.
       let s1 = emit (Mark_end mark_ended) s0 in
       if \<not> mark_ended then Return False s1
       else
         let s2 = s1\<lparr>ZGlobalPhase := ZPhaseMarkCompleted\<rparr>;
             s3 = emit MetaspaceGC_compute_new_size s2;
             s4 = emit (ZStatSample ZSamplerHeapUsedAfterMark) s3;
             s5 = emit ZStatHeap_set_at_mark_end s4;
             s6 = resurrection_block s5;
             s7 = emit WeakRootsProcessor_process_weak_roots s6;
             s8 = emit Unload_prepare s7
         in Return True s8)"

subsection \<open>Class unloading and non-strong references (lines 329 to 390)\<close>

definition should_unload_class :: "ZHeap \<Rightarrow> bool" where
  "should_unload_class s =
     (if \<not> ClassUnloading s then False
      else case gc_cause s of
        GCCause_wb_young_gc \<Rightarrow> True
      | GCCause_wb_conc_mark \<Rightarrow> True
      | GCCause_wb_full_gc \<Rightarrow> True
      | GCCause_dcmd_gc_run \<Rightarrow> True
      | GCCause_java_lang_system_gc \<Rightarrow> True
      | GCCause_full_gc_alot \<Rightarrow> True
      | GCCause_scavenge_alot \<Rightarrow> True
      | GCCause_jvmti_force_gc \<Rightarrow> True
      | GCCause_metadata_GC_clear_soft_refs \<Rightarrow> True
      | GCCause_other _ \<Rightarrow>
          ZUnloadClassesFrequency s \<noteq> 0 \<and>
          unat (ZGlobalSeqNum s - 1) mod ZUnloadClassesFrequency s = 0)"

definition process_non_strong_references :: "ZHeap \<Rightarrow> unit outcome" where
  "process_non_strong_references s =
     (let s1 = emit ReferenceProcessor_process_references s;
          s2 = emit WeakRootsProcessor_process_concurrent_weak_roots s1
      in if should_unload_class s2 then Return () s2
         else
           let s3 = resurrection_unblock s2;
               s4 = emit ReferenceProcessor_enqueue_references s3
           in Return () s4)"

definition finish_non_strong_references :: "ZHeap \<Rightarrow> unit outcome" where
  "finish_non_strong_references s =
     then_do (guarantee (should_unload_class s) ''sanity'' s) (\<lambda>_ s0.
       let s1 = resurrection_unblock s0;
           s2 = emit ReferenceProcessor_enqueue_references s1
       in Return () s2)"

definition unload_class :: "ZHeap \<Rightarrow> unit outcome" where
  "unload_class s = Return () (emit Unload_unload s)"

subsection \<open>The relocation set (lines 392 to 476)\<close>

text \<open>The loop over the page table (lines 399 to 415).\<close>

fun register_pages ::
  "ZPage list \<Rightarrow> ZRelocationSetSelector \<Rightarrow> ZHeap \<Rightarrow> ZRelocationSetSelector outcome" where
  "register_pages [] selector s = Return selector s"
| "register_pages (page # pages) selector s =
     (if \<not> is_relocatable page then register_pages pages selector s
      else if is_marked page then
        register_pages pages (register_live_page page selector)
          (emit (Selector_register_live_page page) s)
      else
        then_do (free_page page True (emit (Selector_register_garbage_page page) s)) (\<lambda>_ s1.
          register_pages pages (register_garbage_page page selector) s1))"

text \<open>The loops over the relocation set (lines 425 to 427 and 437 to 439).\<close>

fun insert_forwardings :: "ZForwarding list \<Rightarrow> ZHeap \<Rightarrow> ZHeap" where
  "insert_forwardings [] s = s"
| "insert_forwardings (forwarding # rest) s = insert_forwardings rest (forwarding_table_insert forwarding s)"

fun remove_forwardings :: "ZForwarding list \<Rightarrow> ZHeap \<Rightarrow> ZHeap" where
  "remove_forwardings [] s = s"
| "remove_forwardings (forwarding # rest) s = remove_forwardings rest (forwarding_table_remove forwarding s)"

definition select_relocation_set :: "(ZPage list \<Rightarrow> ZPage \<Rightarrow> bool) \<Rightarrow> ZHeap \<Rightarrow> unit outcome" where
  "select_relocation_set policy s =
     (let s1 = enable_deferred_delete s in
      then_do (register_pages (page_table s1) new_selector s1) (\<lambda>selector s2.
        let s3 = disable_deferred_delete s2;
            s4 = selector_select policy selector s3;
            s5 = insert_forwardings (relocation_set s4) s4;
            s6 = emit ZStatRelocation_set_at_select_relocation_set s5;
            s7 = emit ZStatHeap_set_at_select_relocation_set s6
        in Return () s7))"

definition reset_relocation_set :: "ZHeap \<Rightarrow> unit outcome" where
  "reset_relocation_set s =
     (let s1 = remove_forwardings (relocation_set s) s;
          s2 = relocation_set_reset s1
      in Return () s2)"

text \<open>\<open>success\<close> is what \<^verbatim>\<open>_relocate.relocate(&_relocation_set)\<close> returns.\<close>

definition relocate :: "bool \<Rightarrow> ZHeap \<Rightarrow> unit outcome" where
  "relocate success s =
     (let s1 = emit (Relocate_relocate success) s;
          s2 = emit (ZStatSample ZSamplerHeapUsedAfterRelocation) s1;
          s3 = emit (ZStatRelocation_set_at_relocate_end success) s2;
          s4 = emit ZStatHeap_set_at_relocate_end s3
      in Return () s4)"

subsection \<open>Printing and verification (lines 478 to 576)\<close>

definition object_iterate :: "bool \<Rightarrow> ZHeap \<Rightarrow> unit outcome" where
  "object_iterate visit_referents s =
     then_do (assert (at_safepoint s) ''Should be at safepoint'' s) (\<lambda>_ s0.
       Return () (emit (HeapIterator_objects_do visit_referents) s0))"

definition print_on :: "ZHeap \<Rightarrow> unit outcome" where
  "print_on s =
     (let s1 = emit Stream_print_heap_usage s;
          s2 = emit MetaspaceUtils_print_on s1
      in Return () s2)"

fun print_pages :: "ZPage list \<Rightarrow> ZHeap \<Rightarrow> ZHeap" where
  "print_pages [] s = s"
| "print_pages (page # pages) s = print_pages pages (emit (Page_print_on page) s)"

definition print_extended_on :: "ZHeap \<Rightarrow> unit outcome" where
  "print_extended_on s =
     then_do (print_on s) (\<lambda>_ s0.
       let s1 = emit Stream_cr s0;
           s2 = enable_deferred_delete s1;
           s3 = print_pages (page_table s2) s2;
           s4 = enable_deferred_delete s3;
           s5 = emit Stream_cr s4
       in Return () s5)"

definition verify :: "ZHeap \<Rightarrow> unit outcome" where
  "verify s =
     then_do (guarantee (ZGlobalPhase s = ZPhaseMarkCompleted) ''Invalid phase'' s) (\<lambda>_ s0.
       let s1 = emit Workers_run_parallel_ZVerifyRootsTask s0
       in object_iterate False s1)"

section \<open>Example states\<close>

text \<open>
  Three pages after marking: one with live objects, one without, and one allocated
  during the cycle (not relocatable).
\<close>

definition live_page :: ZPage where
  "live_page = \<lparr>page_start = 0, page_size = 2097152, is_relocatable = True, is_marked = True,
     is_allocating = False\<rparr>"

definition garbage_page :: ZPage where
  "garbage_page = \<lparr>page_start = 2097152, page_size = 2097152, is_relocatable = True,
     is_marked = False, is_allocating = False\<rparr>"

definition new_page :: ZPage where
  "new_page = \<lparr>page_start = 4194304, page_size = 2097152, is_relocatable = False,
     is_marked = False, is_allocating = True\<rparr>"

text \<open>
  A heap of a debug build at the safepoint that ended marking, in the first cycle, with
  class unloading every fifth cycle and a cause that does not imply unloading.
\<close>

definition example_heap :: ZHeap where
  "example_heap = \<lparr>ZGlobalPhase = ZPhaseMarkCompleted, ZGlobalSeqNum = 1, ClassUnloading = True,
     ZUnloadClassesFrequency = 5, gc_cause = GCCause_other 0, at_safepoint = True,
     debug_build = True, page_table = [live_page, garbage_page, new_page],
     forwarding_table = [], relocation_set = [], deferred_delete = False,
     resurrection_blocked = True, trace = []\<rparr>"

section \<open>Basic facts\<close>

lemma emit_fields [simp]:
  "ZGlobalPhase (emit e s) = ZGlobalPhase s"
  "ZGlobalSeqNum (emit e s) = ZGlobalSeqNum s"
  "ClassUnloading (emit e s) = ClassUnloading s"
  "ZUnloadClassesFrequency (emit e s) = ZUnloadClassesFrequency s"
  "gc_cause (emit e s) = gc_cause s"
  "at_safepoint (emit e s) = at_safepoint s"
  "debug_build (emit e s) = debug_build s"
  "page_table (emit e s) = page_table s"
  "forwarding_table (emit e s) = forwarding_table s"
  "relocation_set (emit e s) = relocation_set s"
  "deferred_delete (emit e s) = deferred_delete s"
  "resurrection_blocked (emit e s) = resurrection_blocked s"
  "trace (emit e s) = trace s @ [e]"
  by (simp_all add: emit_def)

lemma insert_forwardings_eq:
  "insert_forwardings fs s =
     s\<lparr>forwarding_table := forwarding_table s @ fs, trace := trace s @ map ForwardingTable_insert fs\<rparr>"
  by (induction fs arbitrary: s) (simp_all add: forwarding_table_insert_def emit_def)

lemma remove_forwardings_eq:
  "remove_forwardings fs s =
     s\<lparr>forwarding_table := filter (\<lambda>f. f \<notin> set fs) (forwarding_table s),
       trace := trace s @ map ForwardingTable_remove fs\<rparr>"
proof (induction fs arbitrary: s)
  case Nil
  show ?case by simp
next
  case (Cons f fs)
  have "filter (\<lambda>g. g \<notin> set fs) (removeAll f (forwarding_table s)) =
        filter (\<lambda>g. g \<notin> set (f # fs)) (forwarding_table s)"
    by (induction "forwarding_table s" arbitrary: s) (auto simp: removeAll_filter_not_eq intro: filter_cong)
  then show ?case
    by (simp add: Cons.IH forwarding_table_remove_def emit_def)
qed

lemma register_pages_eq:
  "register_pages pages selector s =
     Return
       (selector\<lparr>registered_live := registered_live selector @ filter (\<lambda>p. is_relocatable p \<and> is_marked p) pages,
                 registered_garbage := registered_garbage selector @ filter (\<lambda>p. is_relocatable p \<and> \<not> is_marked p) pages\<rparr>)
       (s\<lparr>page_table := filter (\<lambda>p. \<not> (p \<in> set pages \<and> is_relocatable p \<and> \<not> is_marked p)) (page_table s),
          trace := trace s @
            concat (map (\<lambda>p. if \<not> is_relocatable p then []
                 else if is_marked p then [Selector_register_live_page p]
                 else [Selector_register_garbage_page p, PageTable_remove p,
                       PageAllocator_free_page p True]) pages)\<rparr>)"
proof (induction pages arbitrary: selector s)
  case Nil
  show ?case by simp
next
  case (Cons page pages)
  show ?case
  proof (cases "is_relocatable page \<and> \<not> is_marked page")
    case False
    then have "filter (\<lambda>p. \<not> (p \<in> set (page # pages) \<and> is_relocatable p \<and> \<not> is_marked p)) (page_table s) =
        filter (\<lambda>p. \<not> (p \<in> set pages \<and> is_relocatable p \<and> \<not> is_marked p)) (page_table s)"
      by (intro filter_cong) auto
    with False show ?thesis
      by (cases "is_relocatable page") (simp_all add: Cons.IH register_live_page_def emit_def)
  next
    case True
    then have "filter (\<lambda>p. \<not> (p \<in> set pages \<and> is_relocatable p \<and> \<not> is_marked p)) (removeAll page (page_table s)) =
        filter (\<lambda>p. \<not> (p \<in> set (page # pages) \<and> is_relocatable p \<and> \<not> is_marked p)) (page_table s)"
      by (simp add: removeAll_filter_not_eq) (intro filter_cong, auto)
    with True show ?thesis
      by (simp add: Cons.IH register_garbage_page_def free_page_def then_do_def
            page_table_remove_def emit_def)
  qed
qed

text \<open>The calls of the loop over the page table: what they hold, and in which order.\<close>

lemma register_events_no_select:
  "Selector_select \<notin> set (concat (map (\<lambda>p. if \<not> is_relocatable p then []
                 else if is_marked p then [Selector_register_live_page p]
                 else [Selector_register_garbage_page p, PageTable_remove p,
                       PageAllocator_free_page p True]) pages))"
  by (induction pages) simp_all

lemma register_events_garbage:
  assumes "p \<in> set pages" and "is_relocatable p" and "\<not> is_marked p"
  shows "PageAllocator_free_page p True \<in> set (concat (map (\<lambda>p. if \<not> is_relocatable p then []
                 else if is_marked p then [Selector_register_live_page p]
                 else [Selector_register_garbage_page p, PageTable_remove p,
                       PageAllocator_free_page p True]) pages)) \<and>
     PageTable_remove p \<in> set (concat (map (\<lambda>p. if \<not> is_relocatable p then []
                 else if is_marked p then [Selector_register_live_page p]
                 else [Selector_register_garbage_page p, PageTable_remove p,
                       PageAllocator_free_page p True]) pages)) \<and>
     PageTable_remove p \<in>
       set (takeWhile (\<lambda>e. e \<noteq> PageAllocator_free_page p True) (concat (map (\<lambda>p. if \<not> is_relocatable p then []
                 else if is_marked p then [Selector_register_live_page p]
                 else [Selector_register_garbage_page p, PageTable_remove p,
                       PageAllocator_free_page p True]) pages)))"
  using assms
proof (induction pages)
  case Nil
  then show ?case by simp
next
  case (Cons page pages)
  show ?case
  proof (cases "page = p")
    case True
    with Cons.prems show ?thesis by simp
  next
    case False
    with Cons.prems have "p \<in> set pages" by simp
    with Cons.IH Cons.prems have ih: "PageAllocator_free_page p True \<in> set (concat (map (\<lambda>p. if \<not> is_relocatable p then []
                 else if is_marked p then [Selector_register_live_page p]
                 else [Selector_register_garbage_page p, PageTable_remove p,
                       PageAllocator_free_page p True]) pages)) \<and>
      PageTable_remove p \<in> set (concat (map (\<lambda>p. if \<not> is_relocatable p then []
                 else if is_marked p then [Selector_register_live_page p]
                 else [Selector_register_garbage_page p, PageTable_remove p,
                       PageAllocator_free_page p True]) pages)) \<and>
      PageTable_remove p \<in>
        set (takeWhile (\<lambda>e. e \<noteq> PageAllocator_free_page p True) (concat (map (\<lambda>p. if \<not> is_relocatable p then []
                 else if is_marked p then [Selector_register_live_page p]
                 else [Selector_register_garbage_page p, PageTable_remove p,
                       PageAllocator_free_page p True]) pages)))"
      by blast
    have "PageAllocator_free_page p True \<notin> set ((\<lambda>p. if \<not> is_relocatable p then []
                 else if is_marked p then [Selector_register_live_page p]
                 else [Selector_register_garbage_page p, PageTable_remove p,
                       PageAllocator_free_page p True]) page)"
      using False by simp
    then have "takeWhile (\<lambda>e. e \<noteq> PageAllocator_free_page p True) ((\<lambda>p. if \<not> is_relocatable p then []
                 else if is_marked p then [Selector_register_live_page p]
                 else [Selector_register_garbage_page p, PageTable_remove p,
                       PageAllocator_free_page p True]) page @ concat (map (\<lambda>p. if \<not> is_relocatable p then []
                 else if is_marked p then [Selector_register_live_page p]
                 else [Selector_register_garbage_page p, PageTable_remove p,
                       PageAllocator_free_page p True]) pages)) =
        (\<lambda>p. if \<not> is_relocatable p then []
                 else if is_marked p then [Selector_register_live_page p]
                 else [Selector_register_garbage_page p, PageTable_remove p,
                       PageAllocator_free_page p True]) page @ takeWhile (\<lambda>e. e \<noteq> PageAllocator_free_page p True) (concat (map (\<lambda>p. if \<not> is_relocatable p then []
                 else if is_marked p then [Selector_register_live_page p]
                 else [Selector_register_garbage_page p, PageTable_remove p,
                       PageAllocator_free_page p True]) pages))"
      by (intro takeWhile_append2) auto
    with ih show ?thesis by simp
  qed
qed

lemma print_pages_eq: "print_pages pages s = s\<lparr>trace := trace s @ map Page_print_on pages\<rparr>"
  by (induction pages arbitrary: s) (simp_all add: emit_def)

lemma select_relocation_set_eq:
  "\<exists>s'. select_relocation_set policy s = Return () s' \<and>
     page_table s' = filter (\<lambda>p. \<not> (is_relocatable p \<and> \<not> is_marked p)) (page_table s) \<and>
     relocation_set s' =
       map Forwarding
         (filter (policy (filter (\<lambda>p. is_relocatable p \<and> is_marked p) (page_table s)))
            (filter (\<lambda>p. is_relocatable p \<and> is_marked p) (page_table s))) \<and>
     forwarding_table s' = forwarding_table s @ relocation_set s' \<and>
     ZGlobalPhase s' = ZGlobalPhase s \<and>
     events_of s s' =
       PageAllocator_enable_deferred_delete #
       concat (map (\<lambda>p. if \<not> is_relocatable p then []
                 else if is_marked p then [Selector_register_live_page p]
                 else [Selector_register_garbage_page p, PageTable_remove p,
                       PageAllocator_free_page p True]) (page_table s)) @
       [PageAllocator_disable_deferred_delete, Selector_select] @
       map ForwardingTable_insert (relocation_set s') @
       [ZStatRelocation_set_at_select_relocation_set, ZStatHeap_set_at_select_relocation_set]"
proof -
  define s1 where "s1 = enable_deferred_delete s"
  define live where "live = filter (\<lambda>p. is_relocatable p \<and> is_marked p) (page_table s)"
  define es where "es = concat (map (\<lambda>p. if \<not> is_relocatable p then []
                 else if is_marked p then [Selector_register_live_page p]
                 else [Selector_register_garbage_page p, PageTable_remove p,
                       PageAllocator_free_page p True]) (page_table s))"
  have s1: "page_table s1 = page_table s" "trace s1 = trace s @ [PageAllocator_enable_deferred_delete]"
    "forwarding_table s1 = forwarding_table s" "ZGlobalPhase s1 = ZGlobalPhase s"
    by (simp_all add: s1_def enable_deferred_delete_def)
  define selector where "selector = new_selector\<lparr>registered_live := registered_live new_selector @ filter (\<lambda>p. is_relocatable p \<and> is_marked p) (page_table s1),
                 registered_garbage := registered_garbage new_selector @ filter (\<lambda>p. is_relocatable p \<and> \<not> is_marked p) (page_table s1)\<rparr>"
  define s2 where "s2 = s1\<lparr>page_table := filter (\<lambda>p. \<not> (p \<in> set (page_table s1) \<and> is_relocatable p \<and> \<not> is_marked p)) (page_table s1),
            trace := trace s1 @ concat (map (\<lambda>p. if \<not> is_relocatable p then []
                 else if is_marked p then [Selector_register_live_page p]
                 else [Selector_register_garbage_page p, PageTable_remove p,
                       PageAllocator_free_page p True]) (page_table s1))\<rparr>"
  have reg: "register_pages (page_table s1) new_selector s1 = Return selector s2"
    unfolding selector_def s2_def by (rule register_pages_eq)
  have flt: "filter (\<lambda>p. \<not> (p \<in> set (page_table s) \<and> is_relocatable p \<and> \<not> is_marked p)) (page_table s) =
      filter (\<lambda>p. \<not> (is_relocatable p \<and> \<not> is_marked p)) (page_table s)"
    by (intro filter_cong) auto
  have live: "registered_live selector = live"
    by (simp add: selector_def new_selector_def s1 live_def)
  have "page_table s2 = filter (\<lambda>p. \<not> (p \<in> set (page_table s) \<and> is_relocatable p \<and> \<not> is_marked p)) (page_table s)"
    unfolding s2_def s1 by simp
  then have s2': "page_table s2 = filter (\<lambda>p. \<not> (is_relocatable p \<and> \<not> is_marked p)) (page_table s)"
    "trace s2 = trace s @ PageAllocator_enable_deferred_delete # es"
    "forwarding_table s2 = forwarding_table s" "ZGlobalPhase s2 = ZGlobalPhase s"
    unfolding flt by (simp_all add: s2_def s1 es_def)
  have "select_relocation_set policy s =
      Return ()
        (emit ZStatHeap_set_at_select_relocation_set
          (emit ZStatRelocation_set_at_select_relocation_set
            (insert_forwardings (map Forwarding (filter (policy live) live))
              (selector_select policy selector (disable_deferred_delete s2)))))"
    unfolding select_relocation_set_def Let_def s1_def [symmetric] reg then_do_def
    by (simp add: selector_select_def live)
  then show ?thesis
    unfolding es_def [symmetric] live_def [symmetric]
    by (simp add: insert_forwardings_eq selector_select_def disable_deferred_delete_def s2' live
          events_of_def emit_def)
qed

lemma once_per_window:
  fixes k N :: nat
  assumes "0 < N"
  shows "\<exists>!i. i < N \<and> (k + i) mod N = 0"
proof (rule ex1I [of _ "(N - k mod N) mod N"])
  have "k mod N < N" using assms by simp
  then have "(k mod N + (N - k mod N)) mod N = 0" by simp
  then have "(k + (N - k mod N)) mod N = 0"
    by (simp only: mod_add_left_eq)
  then have "(k + (N - k mod N) mod N) mod N = 0"
    by (simp only: mod_add_right_eq)
  then show "(N - k mod N) mod N < N \<and> (k + (N - k mod N) mod N) mod N = 0"
    using assms by simp
next
  fix i
  assume i: "i < N \<and> (k + i) mod N = 0"
  have r: "k mod N < N" using assms by simp
  have "(k mod N + i) mod N = 0"
    using i by (simp only: mod_add_left_eq)
  then have "N dvd (k mod N + i)" by (simp only: dvd_eq_mod_eq_0)
  then obtain q where q: "k mod N + i = N * q" by (auto simp: dvd_def)
  have "k mod N + i < N + N" using i r by linarith
  then have "N * q < N * 2" using q by (simp only: mult_2_right)
  then have "q < 2" by simp
  then consider "q = 0" | "q = 1" by linarith
  then show "i = (N - k mod N) mod N"
  proof cases
    case 1
    with q show ?thesis by simp
  next
    case 2
    with q have "i = N - k mod N" by simp
    moreover from this i have "0 < k mod N" by arith
    ultimately show ?thesis using r by simp
  qed
qed

lemma unat_seq: "n < 2 ^ 32 \<Longrightarrow> unat (of_nat (Suc n) - 1 :: 32 word) = n"
  by (simp add: unat_of_nat)

lemma should_unload_class_trace [simp]:
  "should_unload_class (s\<lparr>trace := t\<rparr>) = should_unload_class s"
  by (simp add: should_unload_class_def split: GCCause.split)

text \<open>The example heap, with a policy that selects every live page.\<close>

lemma select_example:
  assumes "page_table h = [live_page, garbage_page, new_page]" and "forwarding_table h = []"
  shows "\<exists>s'. select_relocation_set (\<lambda>_ _. True) h = Return () s' \<and>
     page_table s' = [live_page, new_page] \<and>
     relocation_set s' = [Forwarding live_page] \<and>
     forwarding_table s' = [Forwarding live_page]"
  using select_relocation_set_eq [of "\<lambda>_ _. True" h] assms
  by (auto simp add: live_page_def garbage_page_def new_page_def)

section \<open>The claims\<close>

text \<open>
  Claim C1. Every page that \<^verbatim>\<open>select_relocation_set\<close> iterates and that is relocatable
  and not marked is freed before the selector's \<^verbatim>\<open>select\<close> is called: it is removed from
  the page table, then handed to the page allocator as reclaimed, and only later is
  \<^verbatim>\<open>select\<close> called. On return it is absent from the page table and has no forwarding in
  the relocation set: every page of the relocation set was in the page table, relocatable and
  marked.
\<close>

theorem select_relocation_set_reclaims_garbage:
  "\<exists>s'. select_relocation_set policy s = Return () s' \<and>
     Selector_select \<in> set (events_of s s') \<and>
     (\<forall>p \<in> set (page_table s). is_relocatable p \<and> \<not> is_marked p \<longrightarrow>
        happens_before (PageTable_remove p) (PageAllocator_free_page p True) (events_of s s') \<and>
        happens_before (PageAllocator_free_page p True) Selector_select (events_of s s') \<and>
        happens_before (PageTable_remove p) Selector_select (events_of s s') \<and>
        p \<notin> set (page_table s') \<and>
        Forwarding p \<notin> set (relocation_set s')) \<and>
     (\<forall>f \<in> set (relocation_set s').
        forwarding_page f \<in> set (page_table s) \<and>
        is_relocatable (forwarding_page f) \<and> is_marked (forwarding_page f))"
proof -
  define es where "es = concat (map (\<lambda>p. if \<not> is_relocatable p then []
                 else if is_marked p then [Selector_register_live_page p]
                 else [Selector_register_garbage_page p, PageTable_remove p,
                       PageAllocator_free_page p True]) (page_table s))"
  from select_relocation_set_eq [of policy s] obtain s' where
    ret: "select_relocation_set policy s = Return () s'"
    and pt: "page_table s' = filter (\<lambda>p. \<not> (is_relocatable p \<and> \<not> is_marked p)) (page_table s)"
    and rs: "relocation_set s' =
       map Forwarding
         (filter (policy (filter (\<lambda>p. is_relocatable p \<and> is_marked p) (page_table s)))
            (filter (\<lambda>p. is_relocatable p \<and> is_marked p) (page_table s)))"
    and ev: "events_of s s' =
       PageAllocator_enable_deferred_delete # es @
       [PageAllocator_disable_deferred_delete, Selector_select] @
       map ForwardingTable_insert (relocation_set s') @
       [ZStatRelocation_set_at_select_relocation_set, ZStatHeap_set_at_select_relocation_set]"
    unfolding es_def by blast
  have nosel: "Selector_select \<notin> set es"
    unfolding es_def by (rule register_events_no_select)
  have tw: "takeWhile (\<lambda>e. e \<noteq> Selector_select) (events_of s s') =
      PageAllocator_enable_deferred_delete # es @ [PageAllocator_disable_deferred_delete]"
    using nosel by (simp add: ev takeWhile_append2 [of es] takeWhile_append)
  have sel: "Selector_select \<in> set (events_of s s')"
    by (simp add: ev)
  have garbage: "happens_before (PageTable_remove p) (PageAllocator_free_page p True) (events_of s s') \<and>
      happens_before (PageAllocator_free_page p True) Selector_select (events_of s s') \<and>
      happens_before (PageTable_remove p) Selector_select (events_of s s') \<and>
      p \<notin> set (page_table s') \<and> Forwarding p \<notin> set (relocation_set s')"
    if p: "p \<in> set (page_table s)" "is_relocatable p" "\<not> is_marked p" for p
  proof -
    from register_events_garbage [OF p] have
      fr: "PageAllocator_free_page p True \<in> set es"
      and rm: "PageTable_remove p \<in> set es"
      and ord: "PageTable_remove p \<in> set (takeWhile (\<lambda>e. e \<noteq> PageAllocator_free_page p True) es)"
      unfolding es_def by blast+
    from fr have "takeWhile (\<lambda>e. e \<noteq> PageAllocator_free_page p True)
        (es @ [PageAllocator_disable_deferred_delete, Selector_select] @
          map ForwardingTable_insert (relocation_set s') @
          [ZStatRelocation_set_at_select_relocation_set, ZStatHeap_set_at_select_relocation_set]) =
        takeWhile (\<lambda>e. e \<noteq> PageAllocator_free_page p True) es"
      by (intro takeWhile_append1 [of "PageAllocator_free_page p True"]) simp_all
    then have "takeWhile (\<lambda>e. e \<noteq> PageAllocator_free_page p True) (events_of s s') =
        PageAllocator_enable_deferred_delete # takeWhile (\<lambda>e. e \<noteq> PageAllocator_free_page p True) es"
      unfolding ev by simp
    with ord have "happens_before (PageTable_remove p) (PageAllocator_free_page p True) (events_of s s')"
      by (simp add: happens_before_def)
    moreover from fr rm have "happens_before (PageAllocator_free_page p True) Selector_select (events_of s s')"
      "happens_before (PageTable_remove p) Selector_select (events_of s s')"
      by (simp_all add: happens_before_def tw)
    moreover from p have "p \<notin> set (page_table s')" "Forwarding p \<notin> set (relocation_set s')"
      by (auto simp add: pt rs)
    ultimately show ?thesis by blast
  qed
  have selected: "forwarding_page f \<in> set (page_table s) \<and>
      is_relocatable (forwarding_page f) \<and> is_marked (forwarding_page f)"
    if "f \<in> set (relocation_set s')" for f
    using that by (auto simp add: rs)
  from ret sel garbage selected show ?thesis by blast
qed

text \<open>
  On the example heap the garbage page is reclaimed before the selection, and the live page
  is the one selected.
\<close>

theorem select_relocation_set_reclaims_garbage_witness:
  "garbage_page \<in> set (page_table example_heap) \<and>
   is_relocatable garbage_page \<and> \<not> is_marked garbage_page \<and>
   happens_before (PageTable_remove garbage_page) (PageAllocator_free_page garbage_page True)
     (events_of example_heap (state (select_relocation_set (\<lambda>_ _. True) example_heap))) \<and>
   happens_before (PageAllocator_free_page garbage_page True) Selector_select
     (events_of example_heap (state (select_relocation_set (\<lambda>_ _. True) example_heap))) \<and>
   happens_before (PageTable_remove garbage_page) Selector_select
     (events_of example_heap (state (select_relocation_set (\<lambda>_ _. True) example_heap))) \<and>
   garbage_page \<notin> set (page_table (state (select_relocation_set (\<lambda>_ _. True) example_heap))) \<and>
   Forwarding garbage_page \<notin>
     set (relocation_set (state (select_relocation_set (\<lambda>_ _. True) example_heap))) \<and>
   Forwarding live_page \<in>
     set (relocation_set (state (select_relocation_set (\<lambda>_ _. True) example_heap))) \<and>
   live_page \<in> set (page_table example_heap) \<and> is_relocatable live_page \<and> is_marked live_page"
proof -
  have h: "garbage_page \<in> set (page_table example_heap)" "is_relocatable garbage_page"
    "\<not> is_marked garbage_page"
    by (simp_all add: example_heap_def garbage_page_def)
  from select_relocation_set_reclaims_garbage [of "\<lambda>_ _. True" example_heap] obtain s' where
    ret: "select_relocation_set (\<lambda>_ _. True) example_heap = Return () s'"
    and g: "\<forall>p \<in> set (page_table example_heap). is_relocatable p \<and> \<not> is_marked p \<longrightarrow>
        happens_before (PageTable_remove p) (PageAllocator_free_page p True) (events_of example_heap s') \<and>
        happens_before (PageAllocator_free_page p True) Selector_select (events_of example_heap s') \<and>
        happens_before (PageTable_remove p) Selector_select (events_of example_heap s') \<and>
        p \<notin> set (page_table s') \<and> Forwarding p \<notin> set (relocation_set s')"
    and f: "\<forall>f \<in> set (relocation_set s').
        forwarding_page f \<in> set (page_table example_heap) \<and>
        is_relocatable (forwarding_page f) \<and> is_marked (forwarding_page f)"
    by blast
  from select_example [of example_heap] ret have l: "Forwarding live_page \<in> set (relocation_set s')"
    by (simp add: example_heap_def)
  from f l have "live_page \<in> set (page_table example_heap) \<and> is_relocatable live_page \<and>
      is_marked live_page"
    by fastforce
  moreover from g h have "happens_before (PageTable_remove garbage_page)
        (PageAllocator_free_page garbage_page True) (events_of example_heap s') \<and>
      happens_before (PageAllocator_free_page garbage_page True) Selector_select
        (events_of example_heap s') \<and>
      happens_before (PageTable_remove garbage_page) Selector_select
        (events_of example_heap s') \<and>
      garbage_page \<notin> set (page_table s') \<and> Forwarding garbage_page \<notin> set (relocation_set s')"
    by blast
  ultimately show ?thesis using h l ret by simp
qed

text \<open>
  Claim C2. Whenever \<^verbatim>\<open>mark_end\<close> returns, it returns what \<^verbatim>\<open>_mark.end()\<close> reported. It
  returns in every product build, and in a debug build at a safepoint (elsewhere the assertion
  halts it). On \<open>False\<close> no field of the collector is written: only the call of Mark's
  termination protocol is recorded, and the phase stays. On \<open>True\<close> the phase is
  \<open>ZPhaseMarkCompleted\<close>, resurrection is blocked, the weak roots were processed and unloading
  was prepared but not executed.
\<close>

theorem mark_end_protocol:
  "(\<forall>r s'. mark_end mark_ended s = Return r s' \<longrightarrow> r = mark_ended) \<and>
   (debug_build s \<and> \<not> at_safepoint s \<longrightarrow>
      mark_end mark_ended s = Fatal ''Should be at safepoint'' s) \<and>
   (at_safepoint s \<or> \<not> debug_build s \<longrightarrow>
      mark_end False s = Return False (emit (Mark_end False) s) \<and>
      (\<exists>s'. mark_end True s = Return True s' \<and>
         ZGlobalPhase s' = ZPhaseMarkCompleted \<and>
         resurrection_blocked s' \<and>
         events_of s s' =
           [Mark_end True, MetaspaceGC_compute_new_size, ZStatSample ZSamplerHeapUsedAfterMark,
            ZStatHeap_set_at_mark_end, ZResurrection_block, WeakRootsProcessor_process_weak_roots,
            Unload_prepare] \<and>
         Unload_unload \<notin> set (events_of s s')))"
  by (auto simp add: mark_end_def assert_def then_do_def resurrection_block_def events_of_def
        emit_def Let_def)

text \<open>
  The example heap while marking, at a safepoint and away from one.
\<close>

theorem mark_end_protocol_witness:
  "at_safepoint (example_heap\<lparr>ZGlobalPhase := ZPhaseMark\<rparr>) \<and>
   mark_end False (example_heap\<lparr>ZGlobalPhase := ZPhaseMark\<rparr>) =
     Return False (emit (Mark_end False) (example_heap\<lparr>ZGlobalPhase := ZPhaseMark\<rparr>)) \<and>
   ZGlobalPhase (state (mark_end False (example_heap\<lparr>ZGlobalPhase := ZPhaseMark\<rparr>))) = ZPhaseMark \<and>
   result (mark_end True (example_heap\<lparr>ZGlobalPhase := ZPhaseMark\<rparr>)) = True \<and>
   ZGlobalPhase (state (mark_end True (example_heap\<lparr>ZGlobalPhase := ZPhaseMark\<rparr>))) =
     ZPhaseMarkCompleted \<and>
   resurrection_blocked (state (mark_end True (example_heap\<lparr>ZGlobalPhase := ZPhaseMark\<rparr>))) \<and>
   Unload_unload \<notin> set (events_of (example_heap\<lparr>ZGlobalPhase := ZPhaseMark\<rparr>)
     (state (mark_end True (example_heap\<lparr>ZGlobalPhase := ZPhaseMark\<rparr>)))) \<and>
   debug_build (example_heap\<lparr>at_safepoint := False\<rparr>) \<and>
   \<not> at_safepoint (example_heap\<lparr>at_safepoint := False\<rparr>) \<and>
   mark_end True (example_heap\<lparr>at_safepoint := False\<rparr>) =
     Fatal ''Should be at safepoint'' (example_heap\<lparr>at_safepoint := False\<rparr>)"
proof -
  define h where "h = example_heap\<lparr>ZGlobalPhase := ZPhaseMark\<rparr>"
  define h2 where "h2 = example_heap\<lparr>at_safepoint := False\<rparr>"
  have a: "at_safepoint h" "ZGlobalPhase h = ZPhaseMark" "debug_build h2" "\<not> at_safepoint h2"
    by (simp_all add: h_def h2_def example_heap_def)
  from mark_end_protocol [of False h] a have
    f: "mark_end False h = Return False (emit (Mark_end False) h)"
    by blast
  from mark_end_protocol [of True h] a obtain s' where
    t: "mark_end True h = Return True s'" "ZGlobalPhase s' = ZPhaseMarkCompleted"
      "resurrection_blocked s'" "Unload_unload \<notin> set (events_of h s')"
    by blast
  from mark_end_protocol [of True h2] a have
    x: "mark_end True h2 = Fatal ''Should be at safepoint'' h2"
    by blast
  from a f t x show ?thesis
    unfolding h_def [symmetric] h2_def [symmetric] by simp
qed

text \<open>
  Claim C3, as amended. \<^verbatim>\<open>select_relocation_set\<close> has no check of the global phase: in
  every phase it returns and has done all of its work. It has removed every relocatable
  unmarked page from the page table and freed it, set the relocation set to the forwardings
  of the pages selected among the relocatable marked ones, appended these forwardings to the
  forwarding table, made exactly the calls of lines 394 to 431 in their order, and left the
  phase as it was.
\<close>

theorem select_relocation_set_any_phase:
  "\<exists>s'. select_relocation_set policy s = Return () s' \<and>
     ZGlobalPhase s' = ZGlobalPhase s \<and>
     page_table s' = filter (\<lambda>p. \<not> (is_relocatable p \<and> \<not> is_marked p)) (page_table s) \<and>
     relocation_set s' =
       map Forwarding
         (filter (policy (filter (\<lambda>p. is_relocatable p \<and> is_marked p) (page_table s)))
            (filter (\<lambda>p. is_relocatable p \<and> is_marked p) (page_table s))) \<and>
     forwarding_table s' = forwarding_table s @ relocation_set s' \<and>
     events_of s s' =
       PageAllocator_enable_deferred_delete #
       concat (map (\<lambda>p. if \<not> is_relocatable p then []
                 else if is_marked p then [Selector_register_live_page p]
                 else [Selector_register_garbage_page p, PageTable_remove p,
                       PageAllocator_free_page p True]) (page_table s)) @
       [PageAllocator_disable_deferred_delete, Selector_select] @
       map ForwardingTable_insert (relocation_set s') @
       [ZStatRelocation_set_at_select_relocation_set, ZStatHeap_set_at_select_relocation_set]"
  using select_relocation_set_eq [of policy s] by blast

text \<open>
  The claim as first stated fails: in phase \<open>ZPhaseMark\<close> the call does not halt; it
  reclaims the garbage page, selects the live one and enters its forwarding.
\<close>

theorem select_relocation_set_any_phase_counterexample:
  "ZGlobalPhase (example_heap\<lparr>ZGlobalPhase := ZPhaseMark\<rparr>) \<noteq> ZPhaseMarkCompleted \<and>
   \<not> is_Fatal (select_relocation_set (\<lambda>_ _. True) (example_heap\<lparr>ZGlobalPhase := ZPhaseMark\<rparr>)) \<and>
   page_table (state (select_relocation_set (\<lambda>_ _. True)
     (example_heap\<lparr>ZGlobalPhase := ZPhaseMark\<rparr>))) = [live_page, new_page] \<and>
   relocation_set (state (select_relocation_set (\<lambda>_ _. True)
     (example_heap\<lparr>ZGlobalPhase := ZPhaseMark\<rparr>))) = [Forwarding live_page] \<and>
   forwarding_table (state (select_relocation_set (\<lambda>_ _. True)
     (example_heap\<lparr>ZGlobalPhase := ZPhaseMark\<rparr>))) = [Forwarding live_page]"
  using select_example [of "example_heap\<lparr>ZGlobalPhase := ZPhaseMark\<rparr>"]
  by (auto simp add: example_heap_def)

text \<open>
  Claim C4, as amended. With \<^verbatim>\<open>ClassUnloading\<close> off, \<^verbatim>\<open>should_unload_class\<close> is false
  whatever the cause. With it on, the nine listed causes give true, and any other cause gives
  true exactly when the frequency \<open>N\<close> is not 0 and \<open>ZGlobalSeqNum - 1\<close> (unsigned, 32 bits) is a
  multiple of \<open>N\<close>: of any \<open>N\<close> consecutive cycles \<open>k + 1, ..., k + N\<close> (below \<open>2 ^ 32\<close>) exactly
  one unloads.
\<close>

theorem should_unload_class_frequency:
  "should_unload_class s =
     (ClassUnloading s \<and>
      (gc_cause s \<in> {GCCause_wb_young_gc, GCCause_wb_conc_mark, GCCause_wb_full_gc,
         GCCause_dcmd_gc_run, GCCause_java_lang_system_gc, GCCause_full_gc_alot,
         GCCause_scavenge_alot, GCCause_jvmti_force_gc, GCCause_metadata_GC_clear_soft_refs} \<or>
       ZUnloadClassesFrequency s \<noteq> 0 \<and>
       unat (ZGlobalSeqNum s - 1) mod ZUnloadClassesFrequency s = 0)) \<and>
   (ClassUnloading s \<and>
    gc_cause s \<notin> {GCCause_wb_young_gc, GCCause_wb_conc_mark, GCCause_wb_full_gc,
         GCCause_dcmd_gc_run, GCCause_java_lang_system_gc, GCCause_full_gc_alot,
         GCCause_scavenge_alot, GCCause_jvmti_force_gc, GCCause_metadata_GC_clear_soft_refs} \<and>
    0 < ZUnloadClassesFrequency s \<and> k + ZUnloadClassesFrequency s < 2 ^ 32 \<longrightarrow>
      (\<exists>!i. i < ZUnloadClassesFrequency s \<and>
         should_unload_class (s\<lparr>ZGlobalSeqNum := of_nat (Suc (k + i))\<rparr>)))"
proof (intro conjI impI)
  show "should_unload_class s =
     (ClassUnloading s \<and>
      (gc_cause s \<in> {GCCause_wb_young_gc, GCCause_wb_conc_mark, GCCause_wb_full_gc,
         GCCause_dcmd_gc_run, GCCause_java_lang_system_gc, GCCause_full_gc_alot,
         GCCause_scavenge_alot, GCCause_jvmti_force_gc, GCCause_metadata_GC_clear_soft_refs} \<or>
       ZUnloadClassesFrequency s \<noteq> 0 \<and>
       unat (ZGlobalSeqNum s - 1) mod ZUnloadClassesFrequency s = 0))"
    by (cases "gc_cause s") (simp_all add: should_unload_class_def)
next
  assume a: "ClassUnloading s \<and>
    gc_cause s \<notin> {GCCause_wb_young_gc, GCCause_wb_conc_mark, GCCause_wb_full_gc,
         GCCause_dcmd_gc_run, GCCause_java_lang_system_gc, GCCause_full_gc_alot,
         GCCause_scavenge_alot, GCCause_jvmti_force_gc, GCCause_metadata_GC_clear_soft_refs} \<and>
    0 < ZUnloadClassesFrequency s \<and> k + ZUnloadClassesFrequency s < 2 ^ 32"
  define N where "N = ZUnloadClassesFrequency s"
  from a have N: "0 < N" "k + N < 2 ^ 32" by (simp_all add: N_def)
  from a obtain c where c: "gc_cause s = GCCause_other c"
    by (cases "gc_cause s") simp_all
  have other: "should_unload_class (s\<lparr>ZGlobalSeqNum := w\<rparr>) = (unat (w - 1) mod N = 0)" for w
    using a c N(1) by (simp add: should_unload_class_def N_def)
  have eq: "should_unload_class (s\<lparr>ZGlobalSeqNum := of_nat (Suc (k + i))\<rparr>) = ((k + i) mod N = 0)"
    if "i < N" for i
  proof -
    from that N have "k + i < 2 ^ 32" by linarith
    then have "unat (of_nat (Suc (k + i)) - 1 :: 32 word) = k + i" by (rule unat_seq)
    then show ?thesis by (simp only: other)
  qed
  from once_per_window [OF N(1), of k] have "\<exists>!i. i < N \<and> (k + i) mod N = 0" .
  then have "\<exists>!i. i < N \<and> should_unload_class (s\<lparr>ZGlobalSeqNum := of_nat (Suc (k + i))\<rparr>)"
    by (simp only: eq cong: conj_cong)
  then show "\<exists>!i. i < ZUnloadClassesFrequency s \<and>
         should_unload_class (s\<lparr>ZGlobalSeqNum := of_nat (Suc (k + i))\<rparr>)"
    by (simp only: N_def)
qed

text \<open>
  The claim as first stated fails: with \<^verbatim>\<open>ClassUnloading\<close> off, a collection caused by
  \<^verbatim>\<open>System.gc()\<close> does not unload.
\<close>

theorem should_unload_class_frequency_counterexample:
  "gc_cause (example_heap\<lparr>ClassUnloading := False, gc_cause := GCCause_java_lang_system_gc\<rparr>) =
     GCCause_java_lang_system_gc \<and>
   \<not> should_unload_class
     (example_heap\<lparr>ClassUnloading := False, gc_cause := GCCause_java_lang_system_gc\<rparr>)"
  by (simp add: should_unload_class_def)

text \<open>
  The example heap unloads in cycle 1, and in exactly one of the cycles 1 to 5.
\<close>

theorem should_unload_class_frequency_witness:
  "ClassUnloading example_heap \<and>
   gc_cause example_heap = GCCause_other 0 \<and>
   ZUnloadClassesFrequency example_heap = 5 \<and>
   should_unload_class example_heap \<and>
   (\<exists>!i. i < ZUnloadClassesFrequency example_heap \<and>
      should_unload_class (example_heap\<lparr>ZGlobalSeqNum := of_nat (Suc (0 + i))\<rparr>))"
proof -
  have a: "ClassUnloading example_heap" "gc_cause example_heap = GCCause_other 0"
    "ZUnloadClassesFrequency example_heap = 5" "ZGlobalSeqNum example_heap = 1"
    by (simp_all add: example_heap_def)
  from should_unload_class_frequency [of example_heap 0] a
  have "should_unload_class example_heap"
    by simp
  moreover from should_unload_class_frequency [of example_heap 0] a
  have "\<exists>!i. i < ZUnloadClassesFrequency example_heap \<and>
      should_unload_class (example_heap\<lparr>ZGlobalSeqNum := of_nat (Suc (0 + i))\<rparr>)"
    by simp
  ultimately show ?thesis using a by simp
qed

text \<open>
  Claim C5. When \<^verbatim>\<open>should_unload_class\<close> holds, \<^verbatim>\<open>process_non_strong_references\<close> returns
  after processing references and concurrent weak roots, without unblocking resurrection and
  without enqueuing, and \<^verbatim>\<open>finish_non_strong_references\<close> unblocks resurrection and then
  enqueues. When it does not hold, \<^verbatim>\<open>process_non_strong_references\<close> unblocks and enqueues
  itself, and \<^verbatim>\<open>finish_non_strong_references\<close> halts in its \<^verbatim>\<open>guarantee\<close>.
\<close>

theorem non_strong_references_protocol:
  "(should_unload_class s \<longrightarrow>
      (\<exists>s'. process_non_strong_references s = Return () s' \<and>
         events_of s s' =
           [ReferenceProcessor_process_references, WeakRootsProcessor_process_concurrent_weak_roots] \<and>
         resurrection_blocked s' = resurrection_blocked s) \<and>
      (\<exists>s'. finish_non_strong_references s = Return () s' \<and>
         events_of s s' = [ZResurrection_unblock, ReferenceProcessor_enqueue_references] \<and>
         \<not> resurrection_blocked s')) \<and>
   (\<not> should_unload_class s \<longrightarrow>
      (\<exists>s'. process_non_strong_references s = Return () s' \<and>
         events_of s s' =
           [ReferenceProcessor_process_references, WeakRootsProcessor_process_concurrent_weak_roots,
            ZResurrection_unblock, ReferenceProcessor_enqueue_references] \<and>
         \<not> resurrection_blocked s') \<and>
      finish_non_strong_references s = Fatal ''sanity'' s)"
  by (simp add: process_non_strong_references_def finish_non_strong_references_def Let_def
        guarantee_def then_do_def resurrection_unblock_def events_of_def emit_def)

text \<open>
  The example heap in cycle 1 (unloading) and in cycle 2 (not unloading).
\<close>

theorem non_strong_references_protocol_witness:
  "should_unload_class example_heap \<and>
   events_of example_heap (state (process_non_strong_references example_heap)) =
     [ReferenceProcessor_process_references, WeakRootsProcessor_process_concurrent_weak_roots] \<and>
   resurrection_blocked (state (process_non_strong_references example_heap)) \<and>
   events_of example_heap (state (finish_non_strong_references example_heap)) =
     [ZResurrection_unblock, ReferenceProcessor_enqueue_references] \<and>
   \<not> resurrection_blocked (state (finish_non_strong_references example_heap)) \<and>
   \<not> should_unload_class (example_heap\<lparr>ZGlobalSeqNum := 2\<rparr>) \<and>
   events_of (example_heap\<lparr>ZGlobalSeqNum := 2\<rparr>)
       (state (process_non_strong_references (example_heap\<lparr>ZGlobalSeqNum := 2\<rparr>))) =
     [ReferenceProcessor_process_references, WeakRootsProcessor_process_concurrent_weak_roots,
      ZResurrection_unblock, ReferenceProcessor_enqueue_references] \<and>
   \<not> resurrection_blocked (state (process_non_strong_references (example_heap\<lparr>ZGlobalSeqNum := 2\<rparr>))) \<and>
   finish_non_strong_references (example_heap\<lparr>ZGlobalSeqNum := 2\<rparr>) =
     Fatal ''sanity'' (example_heap\<lparr>ZGlobalSeqNum := 2\<rparr>)"
proof -
  define h2 where "h2 = example_heap\<lparr>ZGlobalSeqNum := 2\<rparr>"
  have a: "should_unload_class example_heap" "resurrection_blocked example_heap"
    by (simp_all add: should_unload_class_def example_heap_def)
  have b: "\<not> should_unload_class h2"
    by (simp add: should_unload_class_def example_heap_def h2_def)
  from non_strong_references_protocol [of example_heap] a obtain s1 s2 where
    "process_non_strong_references example_heap = Return () s1"
    "events_of example_heap s1 =
       [ReferenceProcessor_process_references, WeakRootsProcessor_process_concurrent_weak_roots]"
    "resurrection_blocked s1"
    "finish_non_strong_references example_heap = Return () s2"
    "events_of example_heap s2 = [ZResurrection_unblock, ReferenceProcessor_enqueue_references]"
    "\<not> resurrection_blocked s2"
    by auto
  moreover from non_strong_references_protocol [of h2] b obtain s3 where
    "process_non_strong_references h2 = Return () s3"
    "events_of h2 s3 =
       [ReferenceProcessor_process_references, WeakRootsProcessor_process_concurrent_weak_roots,
        ZResurrection_unblock, ReferenceProcessor_enqueue_references]"
    "\<not> resurrection_blocked s3"
    "finish_non_strong_references h2 = Fatal ''sanity'' h2"
    by auto
  ultimately show ?thesis using a b
    unfolding h2_def [symmetric] by simp
qed

text \<open>
  Claim C6, as amended. \<^verbatim>\<open>relocate\<close> returns no value. What \<^verbatim>\<open>_relocate.relocate\<close>
  reported goes to \<^verbatim>\<open>ZStatRelocation::set_at_relocate_end\<close>, and the statistics after the
  cycle are recorded whether it succeeded or not.
\<close>

theorem relocate_records_result:
  "\<exists>s'. relocate success s = Return () s' \<and>
     events_of s s' =
       [Relocate_relocate success, ZStatSample ZSamplerHeapUsedAfterRelocation,
        ZStatRelocation_set_at_relocate_end success, ZStatHeap_set_at_relocate_end]"
  by (simp add: relocate_def events_of_def emit_def)

text \<open>
  The claim as first stated fails: a stalled relocation and a successful one return the
  same (empty) value; the failure is in the statistics only.
\<close>

theorem relocate_records_result_counterexample:
  "result (relocate False example_heap) = result (relocate True example_heap) \<and>
   is_Return (relocate False example_heap) \<and>
   is_Return (relocate True example_heap) \<and>
   ZStatRelocation_set_at_relocate_end False \<in>
     set (events_of example_heap (state (relocate False example_heap)))"
  by (simp add: relocate_def events_of_def emit_def)

text \<open>
  Claim C7, as amended. \<^verbatim>\<open>reset_relocation_set\<close> removes every forwarding of the
  relocation set from the forwarding table (leaving the other entries), empties the relocation
  set, and leaves the global phase as it was. \<^verbatim>\<open>select_relocation_set\<close> appends the
  forwardings of the relocation set to the forwarding table, so each of them is in the table
  from the selection on.
\<close>

theorem reset_relocation_set_clears:
  "(\<exists>s'. reset_relocation_set s = Return () s' \<and>
      relocation_set s' = [] \<and>
      (\<forall>f \<in> set (relocation_set s). f \<notin> set (forwarding_table s')) \<and>
      forwarding_table s' = filter (\<lambda>f. f \<notin> set (relocation_set s)) (forwarding_table s) \<and>
      ZGlobalPhase s' = ZGlobalPhase s) \<and>
   (\<exists>s1. select_relocation_set policy s = Return () s1 \<and>
      forwarding_table s1 = forwarding_table s @ relocation_set s1 \<and>
      (\<forall>f \<in> set (relocation_set s1). f \<in> set (forwarding_table s1)))"
proof -
  have "\<exists>s1. select_relocation_set policy s = Return () s1 \<and>
      forwarding_table s1 = forwarding_table s @ relocation_set s1 \<and>
      (\<forall>f \<in> set (relocation_set s1). f \<in> set (forwarding_table s1))"
    using select_relocation_set_eq [of policy s] by auto
  then show ?thesis
    by (simp add: reset_relocation_set_def remove_forwardings_eq relocation_set_reset_def emit_def)
qed

text \<open>
  The claim as first stated fails: the phase after the reset is the phase before it,
  \<open>ZPhaseMarkCompleted\<close> or \<open>ZPhaseRelocate\<close>; the function writes no phase.
\<close>

theorem reset_relocation_set_clears_counterexample:
  "ZGlobalPhase (state (reset_relocation_set
      (example_heap\<lparr>forwarding_table := [Forwarding live_page],
         relocation_set := [Forwarding live_page]\<rparr>))) = ZPhaseMarkCompleted \<and>
   ZGlobalPhase (state (reset_relocation_set
      (example_heap\<lparr>ZGlobalPhase := ZPhaseRelocate, forwarding_table := [Forwarding live_page],
         relocation_set := [Forwarding live_page]\<rparr>))) = ZPhaseRelocate"
  by (simp add: reset_relocation_set_def remove_forwardings_eq relocation_set_reset_def emit_def
        example_heap_def)

text \<open>
  A heap with one forwarding, reset; and the example heap after selection.
\<close>

theorem reset_relocation_set_clears_witness:
  "Forwarding live_page \<in>
     set (relocation_set (example_heap\<lparr>ZGlobalPhase := ZPhaseRelocate,
       forwarding_table := [Forwarding live_page], relocation_set := [Forwarding live_page]\<rparr>)) \<and>
   Forwarding live_page \<notin>
     set (forwarding_table (state (reset_relocation_set
       (example_heap\<lparr>ZGlobalPhase := ZPhaseRelocate,
          forwarding_table := [Forwarding live_page], relocation_set := [Forwarding live_page]\<rparr>)))) \<and>
   relocation_set (state (reset_relocation_set
       (example_heap\<lparr>ZGlobalPhase := ZPhaseRelocate,
          forwarding_table := [Forwarding live_page], relocation_set := [Forwarding live_page]\<rparr>))) = [] \<and>
   Forwarding live_page \<in>
     set (relocation_set (state (select_relocation_set (\<lambda>_ _. True) example_heap))) \<and>
   Forwarding live_page \<in>
     set (forwarding_table (state (select_relocation_set (\<lambda>_ _. True) example_heap)))"
proof -
  define h where "h = example_heap\<lparr>ZGlobalPhase := ZPhaseRelocate,
       forwarding_table := [Forwarding live_page], relocation_set := [Forwarding live_page]\<rparr>"
  have a: "Forwarding live_page \<in> set (relocation_set h)"
    by (simp add: h_def)
  from reset_relocation_set_clears [of h "\<lambda>_ _. True"] obtain s' where
    r: "reset_relocation_set h = Return () s'" "relocation_set s' = []"
    and c: "\<forall>f \<in> set (relocation_set h). f \<notin> set (forwarding_table s')"
    by blast
  from c a have n: "Forwarding live_page \<notin> set (forwarding_table s')"
    by blast
  from reset_relocation_set_clears [of example_heap "\<lambda>_ _. True"] obtain s1 where
    s: "select_relocation_set (\<lambda>_ _. True) example_heap = Return () s1"
    and i: "\<forall>f \<in> set (relocation_set s1). f \<in> set (forwarding_table s1)"
    by blast
  from select_example [of example_heap] s have m: "Forwarding live_page \<in> set (relocation_set s1)"
    by (simp add: example_heap_def)
  with i have "Forwarding live_page \<in> set (forwarding_table s1)"
    by blast
  with a r n s m show ?thesis
    unfolding h_def [symmetric] by simp
qed

text \<open>
  Claim C8. \<^verbatim>\<open>alloc_page\<close> returns what the page allocator handed out; on \<^verbatim>\<open>NULL\<close> the
  page table is unchanged and nothing is inserted, otherwise the page is inserted right after
  the allocation. \<^verbatim>\<open>free_page\<close> removes the page from the page table and only then hands it
  to the page allocator.
\<close>

theorem alloc_page_free_page_page_table:
  "(\<exists>s'. alloc_page allocated s = Return allocated s' \<and>
      (case allocated of
         None \<Rightarrow> page_table s' = page_table s \<and> events_of s s' = [PageAllocator_alloc_page None]
       | Some page \<Rightarrow> page_table s' = page_table s @ [page] \<and>
           events_of s s' = [PageAllocator_alloc_page (Some page), PageTable_insert page])) \<and>
   (\<exists>s'. free_page page reclaimed s = Return () s' \<and>
      page \<notin> set (page_table s') \<and>
      events_of s s' = [PageTable_remove page, PageAllocator_free_page page reclaimed] \<and>
      happens_before (PageTable_remove page) (PageAllocator_free_page page reclaimed) (events_of s s'))"
  by (cases allocated)
     (simp_all add: alloc_page_def free_page_def page_table_insert_def page_table_remove_def
        events_of_def happens_before_def emit_def)

text \<open>
  Claim C9. In any phase other than \<open>ZPhaseMarkCompleted\<close>, \<^verbatim>\<open>verify\<close> halts in its
  \<^verbatim>\<open>guarantee\<close> with no call made: no root and no object is walked. So it returns only in
  \<open>ZPhaseMarkCompleted\<close>, where (at a safepoint, or in a product build) it runs the root
  verification task and then iterates over the objects.
\<close>

theorem verify_requires_mark_completed:
  "(ZGlobalPhase s \<noteq> ZPhaseMarkCompleted \<longrightarrow>
      verify s = Fatal ''Invalid phase'' s \<and> events_of s (halt_state (verify s)) = []) \<and>
   (\<forall>s'. verify s = Return () s' \<longrightarrow> ZGlobalPhase s = ZPhaseMarkCompleted) \<and>
   (ZGlobalPhase s = ZPhaseMarkCompleted \<and> (at_safepoint s \<or> \<not> debug_build s) \<longrightarrow>
      (\<exists>s'. verify s = Return () s' \<and>
         events_of s s' = [Workers_run_parallel_ZVerifyRootsTask, HeapIterator_objects_do False]))"
  by (auto simp add: verify_def guarantee_def then_do_def object_iterate_def assert_def
        events_of_def emit_def)

text \<open>
  The example heap in phase \<open>ZPhaseRelocate\<close>, where verification halts, and in phase
  \<open>ZPhaseMarkCompleted\<close>, where it runs.
\<close>

theorem verify_requires_mark_completed_witness:
  "ZGlobalPhase (example_heap\<lparr>ZGlobalPhase := ZPhaseRelocate\<rparr>) \<noteq> ZPhaseMarkCompleted \<and>
   verify (example_heap\<lparr>ZGlobalPhase := ZPhaseRelocate\<rparr>) =
     Fatal ''Invalid phase'' (example_heap\<lparr>ZGlobalPhase := ZPhaseRelocate\<rparr>) \<and>
   events_of (example_heap\<lparr>ZGlobalPhase := ZPhaseRelocate\<rparr>)
     (halt_state (verify (example_heap\<lparr>ZGlobalPhase := ZPhaseRelocate\<rparr>))) = [] \<and>
   ZGlobalPhase example_heap = ZPhaseMarkCompleted \<and>
   at_safepoint example_heap \<and>
   is_Return (verify example_heap) \<and>
   events_of example_heap (state (verify example_heap)) =
     [Workers_run_parallel_ZVerifyRootsTask, HeapIterator_objects_do False]"
proof -
  define h where "h = example_heap\<lparr>ZGlobalPhase := ZPhaseRelocate\<rparr>"
  have a: "ZGlobalPhase h \<noteq> ZPhaseMarkCompleted" "ZGlobalPhase example_heap = ZPhaseMarkCompleted"
    "at_safepoint example_heap"
    by (simp_all add: h_def example_heap_def)
  from verify_requires_mark_completed [of h] a have
    f: "verify h = Fatal ''Invalid phase'' h" "events_of h (halt_state (verify h)) = []"
    by blast+
  from verify_requires_mark_completed [of example_heap] a obtain s' where
    "verify example_heap = Return () s'"
    "events_of example_heap s' = [Workers_run_parallel_ZVerifyRootsTask, HeapIterator_objects_do False]"
    by blast
  with a f show ?thesis
    unfolding h_def [symmetric] by simp
qed

text \<open>
  Claim C10. \<^verbatim>\<open>print_extended_on\<close> calls \<^verbatim>\<open>enable_deferred_delete\<close> before and after
  printing the pages and never \<^verbatim>\<open>disable_deferred_delete\<close>: deferred delete is on when it
  returns.
\<close>

theorem print_extended_on_leaves_deferred_delete_enabled:
  "\<exists>s'. print_extended_on s = Return () s' \<and>
     deferred_delete s' \<and>
     events_of s s' =
       [Stream_print_heap_usage, MetaspaceUtils_print_on, Stream_cr,
        PageAllocator_enable_deferred_delete] @
       map Page_print_on (page_table s) @
       [PageAllocator_enable_deferred_delete, Stream_cr] \<and>
     count_list (events_of s s') PageAllocator_enable_deferred_delete = 2 \<and>
     PageAllocator_disable_deferred_delete \<notin> set (events_of s s')"
proof -
  have "count_list (map Page_print_on pages) PageAllocator_enable_deferred_delete = 0" for pages
    by (induction pages) simp_all
  then show ?thesis
    by (auto simp add: print_extended_on_def print_on_def then_do_def enable_deferred_delete_def
          print_pages_eq events_of_def emit_def)
qed

end
